theory Spec2Isabelle
  imports Complex_Main "HOL-Library.Log_Nat"
begin

section \<open>JavaScript numbers\<close>

text \<open>
  The service computes with JavaScript Numbers (IEEE 754 binary64). A finite Number is
  modelled by the real it denotes, and every arithmetic operator rounds its exact result
  to the nearest binary64 value, ties to even (\<open>fl\<close>): 53 significant bits, spacing
  \<open>2^-1074\<close> in the subnormal range. Overflow to Infinity and NaN are not modelled, so the
  operators below describe the code as long as results stay below \<open>2^1024\<close> in magnitude.
\<close>

type_synonym number = real

definition ilog2 :: "real \<Rightarrow> int" where
  \<comment> \<open>\<open>\<lfloor>log\<^sub>2 x\<rfloor>\<close> for \<open>x > 0\<close>, computed with bit lengths\<close>
  "ilog2 x =
     (if 1 \<le> x then int (floorlog 2 (nat \<lfloor>x\<rfloor>)) - 1
      else - int (floorlog 2 (nat (\<lceil>1 / x\<rceil> - 1))))"

definition pow2 :: "int \<Rightarrow> real" where
  "pow2 s = (if 0 \<le> s then 2 ^ nat s else 1 / 2 ^ nat (- s))"

definition round_half_even :: "real \<Rightarrow> int" where
  "round_half_even z =
     (let f = \<lfloor>z\<rfloor>; d = z - of_int f
      in if d < 1 / 2 then f else if 1 / 2 < d then f + 1 else if even f then f else f + 1)"

definition fl :: "real \<Rightarrow> number" where
  "fl x =
     (if x = 0 then 0
      else let s = min (52 - ilog2 \<bar>x\<bar>) 1074
           in sgn x * (of_int (round_half_even (\<bar>x\<bar> * pow2 s)) / pow2 s))"

definition jmul :: "number \<Rightarrow> number \<Rightarrow> number" where "jmul a b = fl (a * b)"
definition jadd :: "number \<Rightarrow> number \<Rightarrow> number" where "jadd a b = fl (a + b)"
definition jsub :: "number \<Rightarrow> number \<Rightarrow> number" where "jsub a b = fl (a - b)"
definition jdiv :: "number \<Rightarrow> number \<Rightarrow> number" where "jdiv a b = fl (a / b)"

fun num_len :: "num \<Rightarrow> nat" where
  "num_len num.One = 1"
| "num_len (num.Bit0 k) = Suc (num_len k)"
| "num_len (num.Bit1 k) = Suc (num_len k)"


section \<open>Documents (models/Product, models/GroupBuy, models/User)\<close>

type_synonym objectId = nat
type_synonym date = int  \<comment> \<open>milliseconds since the epoch\<close>

datatype status = Active | Completed | Expired | Cancelled

text \<open>The product document: its name, \<open>sustainability.carbonFootprint\<close> (default null) and
  the \<open>groupBuying\<close> settings. The other fields are not read by the service. Thresholds,
  day counts and the counter are whole numbers; the percentages and the footprint are
  Numbers.\<close>

record product =
  name :: string
  carbonFootprint :: "number option"
  enabled :: bool
  gb_threshold :: int
  gb_carbonSavingPercent :: number
  gb_discountPercent :: number
  expiryDays :: int
  currentParticipants :: nat

record participant =
  userId :: objectId
  joinedAt :: date

record groupBuy =
  productId :: objectId
  productName :: string
  initiatorId :: objectId
  threshold :: int
  discountPercent :: number
  carbonSavingPercent :: number
  expiryDate :: date
  participants :: "participant list"
  status :: status
  completedAt :: "date option"
  createdAt :: date

text \<open>An entry of the user's \<open>groupBuyingParticipation\<close> array.\<close>

record participation =
  groupId :: objectId
  p_productId :: objectId
  p_productName :: string
  p_joinedAt :: date
  p_status :: status
  potentialCarbonSaving :: number

record user =
  groupBuyingParticipation :: "participation list"

text \<open>A call \<open>sendGroupBuyingNotification(userId, productId, title, message)\<close>; the message
  template is kept as the two values it interpolates.\<close>

record notification =
  n_userId :: objectId
  n_productId :: objectId
  n_title :: string
  n_productName :: string
  n_discountPercent :: number

text \<open>The three collections and the notification sink. A group buy's \<open>_id\<close> is its position
  in \<open>groupBuys\<close>, so a new document gets a fresh identifier.\<close>

record store =
  products :: "objectId \<rightharpoonup> product"
  groupBuys :: "groupBuy list"
  users :: "objectId \<rightharpoonup> user"
  notifications :: "notification list"

text \<open>What a call reads from outside the store: the clock (one reading \<open>new Date()\<close> per
  call, shared with the join a creation delegates to) and whether \<open>save()\<close> on the GroupBuy
  document goes through. The writes of Product and User documents, and the writes of the
  sweeper, are taken to succeed.\<close>

record env =
  now :: date
  saveOk :: bool

datatype error =
    ProductNotFound
  | FeatureDisabled
  | GroupBuyNotFound
  | InvalidState status
  | GroupBuyExpired
  | ValidationError
  | StoreUnavailable

datatype message = AlreadyParticipating | SuccessfullyJoined

datatype reply = Saved objectId groupBuy | JoinReply objectId groupBuy message


section \<open>services/groupBuyingService\<close>

definition findById :: "groupBuy list \<Rightarrow> objectId \<Rightarrow> groupBuy option" where
  "findById gbs gid = (if gid < length gbs then Some (gbs ! gid) else None)"

definition findActive :: "groupBuy list \<Rightarrow> objectId \<Rightarrow> date \<Rightarrow> objectId option" where
  \<comment> \<open>\<open>GroupBuy.findOne({productId, status: 'active', expiryDate: {$gt: new Date()}})\<close>\<close>
  "findActive gbs pid t =
     find (\<lambda>i. productId (gbs ! i) = pid \<and> status (gbs ! i) = Active \<and> t < expiryDate (gbs ! i))
       [0..<length gbs]"

definition msPerDay :: int where
  \<comment> \<open>\<open>expiryDate.setDate(expiryDate.getDate() + expiryDays)\<close> moves the date by whole days\<close>
  "msPerDay = 86400000"

definition footprintOrDefault :: "product \<Rightarrow> number" where
  \<comment> \<open>\<open>product.sustainability.carbonFootprint || 10\<close>\<close>
  "footprintOrDefault p =
     (case carbonFootprint p of None \<Rightarrow> 10 | Some x \<Rightarrow> if x = 0 then 10 else x)"

definition potentialSaving :: "product \<Rightarrow> number" where
  \<comment> \<open>\<open>(productCarbonFootprint * product.groupBuying.carbonSavingPercent) / 100\<close>\<close>
  "potentialSaving p = jdiv (jmul (footprintOrDefault p) (gb_carbonSavingPercent p)) 100"

definition pushParticipation :: "store \<Rightarrow> objectId \<Rightarrow> participation \<Rightarrow> store" where
  \<comment> \<open>\<open>user.groupBuyingParticipation.push(entry); await user.save()\<close>, skipped without user\<close>
  "pushParticipation st uid entry =
     (case users st uid of
        None \<Rightarrow> st
      | Some u \<Rightarrow>
          st\<lparr>users := (users st)(uid \<mapsto>
            u\<lparr>groupBuyingParticipation := groupBuyingParticipation u @ [entry]\<rparr>)\<rparr>)"

definition notificationFor :: "groupBuy \<Rightarrow> participant \<Rightarrow> notification" where
  "notificationFor g p =
     \<lparr>n_userId = userId p, n_productId = productId g, n_title = ''Group Buy Successful!'',
      n_productName = productName g, n_discountPercent = discountPercent g\<rparr>"

definition isParticipant :: "groupBuy \<Rightarrow> objectId \<Rightarrow> bool" where
  "isParticipant g uid = (\<exists>p \<in> set (participants g). userId p = uid)"

definition addParticipant :: "groupBuy \<Rightarrow> objectId \<Rightarrow> date \<Rightarrow> groupBuy" where
  \<comment> \<open>\<open>groupBuy.participants.push({userId, joinedAt: new Date()})\<close>\<close>
  "addParticipant g uid t = g\<lparr>participants := participants g @ [\<lparr>userId = uid, joinedAt = t\<rparr>]\<rparr>"

definition thresholdReached :: "groupBuy \<Rightarrow> bool" where
  \<comment> \<open>\<open>groupBuy.participants.length >= groupBuy.threshold && groupBuy.status === 'active'\<close>\<close>
  "thresholdReached g = (threshold g \<le> int (length (participants g)) \<and> status g = Active)"

definition markCompleted :: "groupBuy \<Rightarrow> date \<Rightarrow> groupBuy" where
  "markCompleted g t = g\<lparr>status := Completed, completedAt := Some t\<rparr>"

definition joinGroupBuy :: "store \<Rightarrow> env \<Rightarrow> objectId \<Rightarrow> objectId \<Rightarrow> store \<times> (error + reply)" where
  "joinGroupBuy st io gid uid =
     (case findById (groupBuys st) gid of
        None \<Rightarrow> (st, Inl GroupBuyNotFound)
      | Some g \<Rightarrow>
          if status g \<noteq> Active then (st, Inl (InvalidState (status g)))
          else if expiryDate g < now io then
            (if saveOk io
             then (st\<lparr>groupBuys := (groupBuys st)[gid := g\<lparr>status := Expired\<rparr>]\<rparr>,
                   Inl GroupBuyExpired)
             else (st, Inl StoreUnavailable))
          else if isParticipant g uid then (st, Inr (JoinReply gid g AlreadyParticipating))
          else
            let g1 = addParticipant g uid (now io);
                product = map_option (\<lambda>p. p\<lparr>currentParticipants := length (participants g1)\<rparr>)
                            (products st (productId g1));
                st1 = (case product of
                         None \<Rightarrow> st
                       | Some p \<Rightarrow> st\<lparr>products := (products st)(productId g1 \<mapsto> p)\<rparr>);
                g2 = (if thresholdReached g1 then markCompleted g1 (now io) else g1);
                st2 = (if thresholdReached g1
                       then st1\<lparr>notifications :=
                              notifications st1 @ map (notificationFor g2) (participants g2)\<rparr>
                       else st1)
            in if \<not> saveOk io then (st2, Inl StoreUnavailable)
               else
                 let st3 = st2\<lparr>groupBuys := (groupBuys st2)[gid := g2]\<rparr>;
                     st4 = (case product of
                              None \<Rightarrow> st3
                            | Some p \<Rightarrow>
                                pushParticipation st3 uid
                                  \<lparr>groupId = gid, p_productId = productId g2,
                                   p_productName = productName g2, p_joinedAt = now io,
                                   p_status = status g2,
                                   potentialCarbonSaving = potentialSaving p\<rparr>)
                 in (st4, Inr (JoinReply gid g2 SuccessfullyJoined)))"

definition newGroupBuy :: "objectId \<Rightarrow> product \<Rightarrow> objectId \<Rightarrow> date \<Rightarrow> groupBuy" where
  \<comment> \<open>\<open>new GroupBuy({...})\<close>, with the schema defaults for the fields not given\<close>
  "newGroupBuy pid product uid t =
     \<lparr>productId = pid, productName = name product, initiatorId = uid,
      threshold = gb_threshold product,
      discountPercent = gb_discountPercent product,
      carbonSavingPercent = gb_carbonSavingPercent product,
      expiryDate = t + expiryDays product * msPerDay,
      participants = [\<lparr>userId = uid, joinedAt = t\<rparr>],
      status = Active, completedAt = None, createdAt = t\<rparr>"

text \<open>\<open>newGroupBuy.save()\<close> validates the document first: the GroupBuy schema requires
  \<open>threshold >= 2\<close>, which the Product schema does not.\<close>

definition createGroupBuy :: "store \<Rightarrow> env \<Rightarrow> objectId \<Rightarrow> objectId \<Rightarrow> store \<times> (error + reply)" where
  "createGroupBuy st io pid uid =
     (case products st pid of
        None \<Rightarrow> (st, Inl ProductNotFound)
      | Some product \<Rightarrow>
          if \<not> enabled product then (st, Inl FeatureDisabled)
          else
            (case findActive (groupBuys st) pid (now io) of
               Some gid \<Rightarrow> joinGroupBuy st io gid uid
             | None \<Rightarrow>
                 let newGB = newGroupBuy pid product uid (now io);
                     product1 = product\<lparr>currentParticipants := 1\<rparr>;
                     st1 = st\<lparr>products := (products st)(pid \<mapsto> product1)\<rparr>
                 in if threshold newGB < 2 then (st1, Inl ValidationError)
                    else if \<not> saveOk io then (st1, Inl StoreUnavailable)
                    else
                      let gid = length (groupBuys st1);
                          st2 = st1\<lparr>groupBuys := groupBuys st1 @ [newGB]\<rparr>;
                          st3 = pushParticipation st2 uid
                                  \<lparr>groupId = gid, p_productId = pid,
                                   p_productName = name product1, p_joinedAt = now io,
                                   p_status = Active,
                                   potentialCarbonSaving = potentialSaving product1\<rparr>
                      in (st3, Inr (Saved gid newGB))))"

text \<open>\<open>User.updateMany({'groupBuyingParticipation.groupId': id},
  {$set: {'groupBuyingParticipation.$.status': 'expired'}})\<close>: in every user, the first
  entry that refers to the group.\<close>

fun expireFirst :: "objectId \<Rightarrow> participation list \<Rightarrow> participation list" where
  "expireFirst gid [] = []"
| "expireFirst gid (e # es) =
     (if groupId e = gid then e\<lparr>p_status := Expired\<rparr> # es else e # expireFirst gid es)"

definition expiredIds :: "groupBuy list \<Rightarrow> date \<Rightarrow> objectId list" where
  \<comment> \<open>\<open>GroupBuy.find({status: 'active', expiryDate: {$lt: new Date()}})\<close>\<close>
  "expiredIds gbs t =
     filter (\<lambda>i. status (gbs ! i) = Active \<and> expiryDate (gbs ! i) < t) [0..<length gbs]"

definition expireOne :: "objectId \<Rightarrow> store \<Rightarrow> store" where
  \<comment> \<open>the body of the sweeper's loop\<close>
  "expireOne gid st =
     (let g = groupBuys st ! gid
      in st\<lparr>groupBuys := (groupBuys st)[gid := g\<lparr>status := Expired\<rparr>],
            users := (\<lambda>u. map_option
                        (\<lambda>usr. usr\<lparr>groupBuyingParticipation :=
                                  expireFirst gid (groupBuyingParticipation usr)\<rparr>)
                        (users st u)),
            products := (case products st (productId g) of
                           None \<Rightarrow> products st
                         | Some p \<Rightarrow> (products st)(productId g \<mapsto> p\<lparr>currentParticipants := 0\<rparr>))\<rparr>)"

definition checkAndUpdateExpiredGroupBuys :: "store \<Rightarrow> date \<Rightarrow> store \<times> nat" where
  "checkAndUpdateExpiredGroupBuys st t =
     (let expiredGroupBuys = expiredIds (groupBuys st) t
      in (fold expireOne expiredGroupBuys st, length expiredGroupBuys))"

record impact =
  groupBuyId :: objectId
  participantsCount :: nat
  shippingEmissionsSaved :: number
  packagingSaved :: number
  productCarbonSavings :: number
  totalCarbonSaved :: number
  totalMaterialsSaved :: number

definition impactOf :: "objectId \<Rightarrow> nat \<Rightarrow> number \<Rightarrow> number \<Rightarrow> impact" where
  \<comment> \<open>the arithmetic of \<open>calculateGroupBuyImpact\<close>; the literal \<open>0.2\<close> is \<open>fl (1/5)\<close>\<close>
  "impactOf gid n productCarbonFootprint percent =
     (let individualShippingEmissions = jmul (of_nat n) (5 / 2);
          consolidatedShippingEmissions = jadd (5 / 2) (jmul (jsub (of_nat n) 1) (1 / 2));
          shippingSaved = jsub individualShippingEmissions consolidatedShippingEmissions;
          packaging = jmul (of_nat n) (fl (1 / 5));
          productSavings = jdiv (jmul (jmul productCarbonFootprint (of_nat n)) percent) 100
      in \<lparr>groupBuyId = gid, participantsCount = n,
          shippingEmissionsSaved = shippingSaved,
          packagingSaved = packaging,
          productCarbonSavings = productSavings,
          totalCarbonSaved = jadd shippingSaved productSavings,
          totalMaterialsSaved = packaging\<rparr>)"

definition calculateGroupBuyImpact :: "store \<Rightarrow> objectId \<Rightarrow> error + impact" where
  "calculateGroupBuyImpact st gid =
     (case findById (groupBuys st) gid of
        None \<Rightarrow> Inl GroupBuyNotFound
      | Some g \<Rightarrow>
          (case products st (productId g) of
             None \<Rightarrow> Inl ProductNotFound
           | Some p \<Rightarrow>
               Inr (impactOf gid (length (participants g)) (footprintOrDefault p)
                      (carbonSavingPercent g))))"


section \<open>Runs of the service\<close>

datatype op = Create objectId objectId | Join objectId objectId | Sweep

fun exec :: "store \<Rightarrow> env \<times> op \<Rightarrow> store" where
  "exec st (io, Create pid uid) = fst (createGroupBuy st io pid uid)"
| "exec st (io, Join gid uid) = fst (joinGroupBuy st io gid uid)"
| "exec st (io, Sweep) = fst (checkAndUpdateExpiredGroupBuys st (now io))"

definition run :: "store \<Rightarrow> (env \<times> op) list \<Rightarrow> store" where
  "run st calls = foldl exec st calls"

text \<open>The stores the service can reach from an empty GroupBuy collection.\<close>

inductive reachable :: "store \<Rightarrow> bool" where
  initial: "groupBuys st = [] \<Longrightarrow> reachable st"
| step: "reachable st \<Longrightarrow> reachable (exec st call)"


section \<open>Notions used in the proofs\<close>

text \<open>The document that a successful join writes.\<close>

definition joined :: "groupBuy \<Rightarrow> objectId \<Rightarrow> date \<Rightarrow> groupBuy" where
  "joined g uid t =
     (if thresholdReached (addParticipant g uid t) then markCompleted (addParticipant g uid t) t
      else addParticipant g uid t)"


section \<open>A worked scenario\<close>

text \<open>A product with group buying enabled (footprint 10 kg, 15 percent saving, 7 days to
  expiry) and three registered users; \<open>shop n\<close> sets the product's threshold to \<open>n\<close>.\<close>

definition bottle :: "int \<Rightarrow> product" where
  "bottle n =
     \<lparr>name = ''Bottle'', carbonFootprint = Some 10, enabled = True, gb_threshold = n,
      gb_carbonSavingPercent = 15, gb_discountPercent = 10, expiryDays = 7,
      currentParticipants = 0\<rparr>"

definition shop :: "int \<Rightarrow> store" where
  "shop n =
     \<lparr>products = [0 \<mapsto> bottle n], groupBuys = [],
      users = [1 \<mapsto> \<lparr>groupBuyingParticipation = []\<rparr>, 2 \<mapsto> \<lparr>groupBuyingParticipation = []\<rparr>,
               3 \<mapsto> \<lparr>groupBuyingParticipation = []\<rparr>],
      notifications = []\<rparr>"

definition atTime :: "date \<Rightarrow> env" where
  "atTime t = \<lparr>now = t, saveOk = True\<rparr>"

definition crowd :: store where
  "crowd = run (shop 10)
     [(atTime 0, Create 0 1), (atTime 1, Join 0 2), (atTime 2, Join 0 3), (atTime 3, Join 0 4),
      (atTime 4, Join 0 5)]"


text \<open>The scenario of the specification: user 1 opens the group buy for the product with
  threshold 3, user 2 joins, user 3 joins and completes it.\<close>

definition shop1 :: store where "shop1 = exec (shop 3) (atTime 0, Create 0 1)"

definition shop2 :: store where "shop2 = exec shop1 (atTime 1, Join 0 2)"

definition shop3 :: store where "shop3 = exec shop2 (atTime 2, Join 0 3)"

definition pending :: "participant list \<Rightarrow> groupBuy" where
  "pending ps =
     \<lparr>productId = 0, productName = ''Bottle'', initiatorId = 1, threshold = 3,
      discountPercent = 10, carbonSavingPercent = 15, expiryDate = 604800000,
      participants = ps, status = Active, completedAt = None, createdAt = 0\<rparr>"

definition entry :: "date \<Rightarrow> status \<Rightarrow> participation" where
  "entry t s =
     \<lparr>groupId = 0, p_productId = 0, p_productName = ''Bottle'', p_joinedAt = t, p_status = s,
      potentialCarbonSaving = 3 / 2\<rparr>"

definition done3 :: groupBuy where
  "done3 = (pending [\<lparr>userId = 1, joinedAt = 0\<rparr>, \<lparr>userId = 2, joinedAt = 1\<rparr>,
                     \<lparr>userId = 3, joinedAt = 2\<rparr>])\<lparr>status := Completed, completedAt := Some 2\<rparr>"

definition success :: "objectId \<Rightarrow> notification" where
  "success uid =
     \<lparr>n_userId = uid, n_productId = 0, n_title = ''Group Buy Successful!'',
      n_productName = ''Bottle'', n_discountPercent = 10\<rparr>"


definition late :: date where
  "late = 700000000"


section \<open>The counter invariant in the words of the specification\<close>

text \<open>The specification asks that a product's counter equal the number of participants of
  the product's unique active group buy, and zero when none is active.\<close>

definition activeFor :: "store \<Rightarrow> objectId \<Rightarrow> groupBuy list" where
  "activeFor st pid = filter (\<lambda>g. productId g = pid \<and> status g = Active) (groupBuys st)"

definition spec_counterInvariant :: "store \<Rightarrow> objectId \<Rightarrow> bool" where
  "spec_counterInvariant st pid =
     (case products st pid of
        None \<Rightarrow> True
      | Some p \<Rightarrow>
          (case activeFor st pid of
             [] \<Rightarrow> currentParticipants p = 0
           | [g] \<Rightarrow> currentParticipants p = length (participants g)
           | _ \<Rightarrow> False))"


section \<open>Number arithmetic: rounding and evaluation\<close>

text \<open>\<open>fl x\<close> is a significand of at most 53 bits times the power of two that belongs to the
  binade of \<open>x\<close>, and it lies within half a unit in the last place of \<open>x\<close>.\<close>

lemma round_half_even_nearest: "\<bar>of_int (round_half_even z) - z\<bar> \<le> 1 / 2"
proof -
  have "of_int \<lfloor>z\<rfloor> \<le> z" "z < of_int \<lfloor>z\<rfloor> + 1" by linarith+
  then show ?thesis by (auto simp: round_half_even_def Let_def)
qed

lemma round_half_even_tie:
  "z - of_int \<lfloor>z\<rfloor> = 1 / 2 \<Longrightarrow> even (round_half_even z)"
  by (simp add: round_half_even_def Let_def)

lemma floorlog_two_bounds:
  assumes "0 < n"
  shows "2 ^ (floorlog 2 n - 1) \<le> n" "n < 2 ^ floorlog 2 n" "0 < floorlog 2 n"
proof -
  from floorlog_bounds[of n 2] assms show "2 ^ (floorlog 2 n - 1) \<le> n" "n < 2 ^ floorlog 2 n"
    by simp_all
  from assms show "0 < floorlog 2 n" by (simp add: floorlog_def)
qed

lemma ilog2_bounds:
  assumes "0 < x"
  shows "pow2 (ilog2 x) \<le> x \<and> x < pow2 (ilog2 x + 1)"
proof (cases "1 \<le> x")
  case True
  define n where "n = nat \<lfloor>x\<rfloor>"
  define L where "L = floorlog 2 n"
  from True have n: "0 < n" "real n \<le> x" "x < real n + 1"
    unfolding n_def by (simp_all add: of_nat_nat)
  from floorlog_two_bounds[OF n(1)] have b: "2 ^ (L - 1) \<le> n" "n < 2 ^ L" "0 < L"
    unfolding L_def by simp_all
  have il: "ilog2 x = int L - 1" using True by (simp add: ilog2_def n_def L_def)
  have p1: "pow2 (ilog2 x) = 2 ^ (L - 1)"
    using b(3) by (simp add: il pow2_def nat_diff_distrib')
  have p2: "pow2 (ilog2 x + 1) = 2 ^ L" by (simp add: il pow2_def)
  from b(1) have "real (2 ^ (L - 1)) \<le> real n" by (rule of_nat_mono)
  then have "(2::real) ^ (L - 1) \<le> real n" by simp
  with n(2) have lo: "(2::real) ^ (L - 1) \<le> x" by linarith
  from b(2) have "n + 1 \<le> 2 ^ L" by simp
  then have "real (n + 1) \<le> real (2 ^ L)" by (rule of_nat_mono)
  then have "real n + 1 \<le> 2 ^ L" by simp
  with n(3) have hi: "x < 2 ^ L" by linarith
  show ?thesis unfolding p1 p2 using lo hi by blast
next
  case False
  define y where "y = 1 / x"
  define n where "n = nat (\<lceil>y\<rceil> - 1)"
  define L where "L = floorlog 2 n"
  from False assms have y: "1 < y" "x = 1 / y" unfolding y_def by simp_all
  then have c: "2 \<le> \<lceil>y\<rceil>" by linarith
  have n: "0 < n" "real n < y" "y \<le> real n + 1"
    using c unfolding n_def by (simp_all add: of_nat_nat) linarith+
  from floorlog_two_bounds[OF n(1)] have b: "2 ^ (L - 1) \<le> n" "n < 2 ^ L" "0 < L"
    unfolding L_def by simp_all
  have il: "ilog2 x = - int L" using False by (simp add: ilog2_def n_def L_def y_def)
  have p1: "pow2 (ilog2 x) = 1 / 2 ^ L" using b(3) by (simp add: il pow2_def)
  have p2: "pow2 (ilog2 x + 1) = 1 / 2 ^ (L - 1)"
  proof (cases "L = 1")
    case True
    then show ?thesis by (simp add: il pow2_def)
  next
    case False
    with b(3) have "1 < L" by simp
    then have "nat (int L - 1) = L - 1" by simp
    with \<open>1 < L\<close> show ?thesis by (simp add: il pow2_def)
  qed
  from b(1) have "real (2 ^ (L - 1)) \<le> real n" by (rule of_nat_mono)
  then have "(2::real) ^ (L - 1) \<le> real n" by simp
  with n(2) have lo: "(2::real) ^ (L - 1) < y" by linarith
  from b(2) have "n + 1 \<le> 2 ^ L" by simp
  then have "real (n + 1) \<le> real (2 ^ L)" by (rule of_nat_mono)
  then have "real n + 1 \<le> 2 ^ L" by simp
  with n(3) have hi: "y \<le> 2 ^ L" by linarith
  have "1 / 2 ^ L \<le> 1 / y" using hi y(1) by (simp add: frac_le)
  then have lo': "1 / 2 ^ L \<le> x" unfolding y(2) .
  have "1 / y < 1 / 2 ^ (L - 1)" using lo by (simp add: frac_less2)
  then have hi': "x < 1 / 2 ^ (L - 1)" unfolding y(2) .
  show ?thesis unfolding p1 p2 using lo' hi' by blast
qed


lemma pow2_powi: "pow2 s = 2 powi s"
  by (simp add: pow2_def power_int_def inverse_eq_divide power_one_over)

lemma pow2_pos: "0 < pow2 s"
  by (simp add: pow2_def)

lemma fl_error:
  "\<bar>fl x - x\<bar> \<le> 1 / (2 * pow2 (min (52 - ilog2 \<bar>x\<bar>) 1074))"
proof (cases "x = 0")
  case True
  then show ?thesis using pow2_pos[of "min (52 - ilog2 \<bar>x\<bar>) 1074"] by (simp add: fl_def)
next
  case False
  define P where "P = pow2 (min (52 - ilog2 \<bar>x\<bar>) 1074)"
  define m where "m = round_half_even (\<bar>x\<bar> * P)"
  have P: "0 < P" unfolding P_def by (rule pow2_pos)
  have fl: "fl x = sgn x * (of_int m / P)"
    using False by (simp add: fl_def Let_def P_def m_def)
  have "x = sgn x * \<bar>x\<bar>" by (simp add: sgn_mult_abs)
  then have "fl x - x = sgn x * (of_int m / P - \<bar>x\<bar>)"
    unfolding fl by (metis right_diff_distrib)
  then have "\<bar>fl x - x\<bar> = \<bar>of_int m / P - \<bar>x\<bar>\<bar>"
    using False by (simp add: abs_mult abs_sgn_eq)
  also have "of_int m / P - \<bar>x\<bar> = (of_int m - \<bar>x\<bar> * P) / P"
    using P by (simp add: field_simps)
  also have "\<bar>(of_int m - \<bar>x\<bar> * P) / P\<bar> = \<bar>of_int m - \<bar>x\<bar> * P\<bar> / P"
    using P by simp
  also have "\<dots> \<le> (1 / 2) / P"
    using round_half_even_nearest[of "\<bar>x\<bar> * P"] P
    unfolding m_def by (intro divide_right_mono) simp_all
  finally show ?thesis by (simp add: P_def)
qed

lemma fl_significand:
  assumes "x \<noteq> 0"
  shows "\<exists>m. 0 \<le> m \<and> m \<le> 2 ^ 53 \<and>
    fl x = sgn x * (of_int m / pow2 (min (52 - ilog2 \<bar>x\<bar>) 1074))"
proof -
  define e where "e = ilog2 \<bar>x\<bar>"
  define s where "s = min (52 - e) 1074"
  define m where "m = round_half_even (\<bar>x\<bar> * pow2 s)"
  from assms have "\<bar>x\<bar> < pow2 (e + 1)" unfolding e_def using ilog2_bounds[of "\<bar>x\<bar>"] by simp
  then have "\<bar>x\<bar> * pow2 s < pow2 (e + 1) * pow2 s"
    using pow2_pos[of s] by simp
  also have "\<dots> = 2 powi (e + 1 + s)" by (simp add: pow2_powi power_int_add)
  also have "\<dots> \<le> 2 powi 53"
    by (rule power_int_increasing) (simp_all add: s_def)
  finally have lt: "\<bar>x\<bar> * pow2 s < 2 ^ 53" by simp
  have ge: "0 \<le> \<bar>x\<bar> * pow2 s" using pow2_pos[of s] by simp
  have "\<lfloor>\<bar>x\<bar> * pow2 s\<rfloor> < 2 ^ 53" using lt by (simp add: floor_less_iff)
  moreover have "0 \<le> \<lfloor>\<bar>x\<bar> * pow2 s\<rfloor>" using ge by simp
  ultimately have "0 \<le> m \<and> m \<le> 2 ^ 53"
    unfolding m_def round_half_even_def Let_def by auto
  moreover have "fl x = sgn x * (of_int m / pow2 (min (52 - ilog2 \<bar>x\<bar>) 1074))"
    using assms by (simp add: fl_def Let_def m_def s_def e_def)
  ultimately show ?thesis by blast
qed

text \<open>Bit lengths of numerals, so that the simplifier evaluates \<open>fl\<close> on literals.\<close>

lemma floorlog_numeral: "floorlog 2 (numeral k) = num_len k"
proof (induction k)
  case One
  show ?case by (simp add: floorlog_def)
next
  case (Bit0 k)
  have "floorlog 2 (numeral (num.Bit0 k)) = floorlog 2 (numeral (num.Bit0 k) div 2) + 1"
    by (subst compute_floorlog) simp
  then show ?case using Bit0 by simp
next
  case (Bit1 k)
  have "floorlog 2 (numeral (num.Bit1 k)) = floorlog 2 (numeral (num.Bit1 k) div 2) + 1"
    by (subst compute_floorlog) simp
  then show ?case using Bit1 by simp
qed

lemma floorlog_0: "floorlog 2 0 = 0"
  by (simp add: floorlog_def)

lemma floorlog_1: "floorlog 2 (Suc 0) = 1"
  by (simp add: floorlog_def)

lemmas fl_eval =
  fl_def ilog2_def pow2_def round_half_even_def Let_def floorlog_numeral floorlog_0 floorlog_1
  jmul_def jadd_def jsub_def jdiv_def

lemma literal_0_2: "fl (1 / 5) = 3602879701896397 / 2 ^ 54"
  by (simp add: fl_eval)

lemma impactOf_10_5_15:
  "impactOf gid 5 10 15 =
     \<lparr>groupBuyId = gid, participantsCount = 5, shippingEmissionsSaved = 8, packagingSaved = 1,
      productCarbonSavings = 15 / 2, totalCarbonSaved = 31 / 2, totalMaterialsSaved = 1\<rparr>"
  by (simp add: impactOf_def fl_eval)

section \<open>The operations, case by case\<close>

subsection \<open>The effect of a join, by cases\<close>

lemma findById_Some: "findById gbs gid = Some g \<longleftrightarrow> gid < length gbs \<and> gbs ! gid = g"
  by (auto simp: findById_def)

lemma findById_None: "findById gbs gid = None \<longleftrightarrow> length gbs \<le> gid"
  by (auto simp: findById_def)

lemma pushParticipation_other [simp]:
  "groupBuys (pushParticipation st uid e) = groupBuys st"
  "products (pushParticipation st uid e) = products st"
  "notifications (pushParticipation st uid e) = notifications st"
  by (simp_all add: pushParticipation_def split: option.splits)


lemma join_missing:
  "findById (groupBuys st) gid = None \<Longrightarrow> joinGroupBuy st io gid uid = (st, Inl GroupBuyNotFound)"
  by (simp add: joinGroupBuy_def)

lemma join_inactive:
  "findById (groupBuys st) gid = Some g \<Longrightarrow> status g \<noteq> Active \<Longrightarrow>
   joinGroupBuy st io gid uid = (st, Inl (InvalidState (status g)))"
  by (simp add: joinGroupBuy_def)

lemma join_stale:
  "findById (groupBuys st) gid = Some g \<Longrightarrow> status g = Active \<Longrightarrow> expiryDate g < now io \<Longrightarrow>
   joinGroupBuy st io gid uid =
     (if saveOk io
      then (st\<lparr>groupBuys := (groupBuys st)[gid := g\<lparr>status := Expired\<rparr>]\<rparr>, Inl GroupBuyExpired)
      else (st, Inl StoreUnavailable))"
  by (simp add: joinGroupBuy_def)

lemma join_already:
  "findById (groupBuys st) gid = Some g \<Longrightarrow> status g = Active \<Longrightarrow> \<not> expiryDate g < now io \<Longrightarrow>
   isParticipant g uid \<Longrightarrow>
   joinGroupBuy st io gid uid = (st, Inr (JoinReply gid g AlreadyParticipating))"
  by (simp add: joinGroupBuy_def)

lemma join_unsaved:
  assumes "findById (groupBuys st) gid = Some g" "status g = Active" "\<not> expiryDate g < now io"
    "\<not> isParticipant g uid" "\<not> saveOk io"
  shows "snd (joinGroupBuy st io gid uid) = Inl StoreUnavailable"
    and "groupBuys (fst (joinGroupBuy st io gid uid)) = groupBuys st"
    and "users (fst (joinGroupBuy st io gid uid)) = users st"
  using assms by (simp_all add: joinGroupBuy_def Let_def split: option.splits)

lemma join_added:
  assumes "findById (groupBuys st) gid = Some g" "status g = Active" "\<not> expiryDate g < now io"
    "\<not> isParticipant g uid" "saveOk io"
  shows "snd (joinGroupBuy st io gid uid) = Inr (JoinReply gid (joined g uid (now io)) SuccessfullyJoined)"
    and "groupBuys (fst (joinGroupBuy st io gid uid)) = (groupBuys st)[gid := joined g uid (now io)]"
    and "notifications (fst (joinGroupBuy st io gid uid)) = notifications st @
         (if thresholdReached (addParticipant g uid (now io))
          then map (notificationFor (joined g uid (now io))) (participants (joined g uid (now io)))
          else [])"
    and "products (fst (joinGroupBuy st io gid uid)) =
         (case products st (productId g) of
            None \<Rightarrow> products st
          | Some p \<Rightarrow> (products st)(productId g \<mapsto>
                       p\<lparr>currentParticipants := Suc (length (participants g))\<rparr>))"
    and "users (fst (joinGroupBuy st io gid uid)) =
         (case products st (productId g) of
            None \<Rightarrow> users st
          | Some p \<Rightarrow>
              (case users st uid of
                 None \<Rightarrow> users st
               | Some u \<Rightarrow> (users st)(uid \<mapsto> u\<lparr>groupBuyingParticipation :=
                   groupBuyingParticipation u @
                   [\<lparr>groupId = gid, p_productId = productId g, p_productName = productName g,
                     p_joinedAt = now io, p_status = status (joined g uid (now io)),
                     potentialCarbonSaving =
                       potentialSaving (p\<lparr>currentParticipants := Suc (length (participants g))\<rparr>)\<rparr>]\<rparr>)))"
  using assms
  by (simp_all add: joinGroupBuy_def joined_def Let_def pushParticipation_def addParticipant_def
      markCompleted_def split: option.splits)

lemma joinGroupBuy_cases:
  assumes "joinGroupBuy st io gid uid = (st', r)"
  obtains
    (missing) "findById (groupBuys st) gid = None" "st' = st" "r = Inl GroupBuyNotFound"
  | (inactive) g where "findById (groupBuys st) gid = Some g" "status g \<noteq> Active"
      "st' = st" "r = Inl (InvalidState (status g))"
  | (stale) g where "findById (groupBuys st) gid = Some g" "status g = Active"
      "expiryDate g < now io" "saveOk io"
      "st' = st\<lparr>groupBuys := (groupBuys st)[gid := g\<lparr>status := Expired\<rparr>]\<rparr>" "r = Inl GroupBuyExpired"
  | (stale_unsaved) g where "findById (groupBuys st) gid = Some g" "status g = Active"
      "expiryDate g < now io" "\<not> saveOk io" "st' = st" "r = Inl StoreUnavailable"
  | (already) g where "findById (groupBuys st) gid = Some g" "status g = Active"
      "\<not> expiryDate g < now io" "isParticipant g uid" "st' = st"
      "r = Inr (JoinReply gid g AlreadyParticipating)"
  | (unsaved) g where "findById (groupBuys st) gid = Some g" "status g = Active"
      "\<not> expiryDate g < now io" "\<not> isParticipant g uid" "\<not> saveOk io"
      "groupBuys st' = groupBuys st" "users st' = users st" "r = Inl StoreUnavailable"
  | (added) g where "findById (groupBuys st) gid = Some g" "status g = Active"
      "\<not> expiryDate g < now io" "\<not> isParticipant g uid" "saveOk io"
      "groupBuys st' = (groupBuys st)[gid := joined g uid (now io)]"
      "notifications st' = notifications st @
         (if thresholdReached (addParticipant g uid (now io))
          then map (notificationFor (joined g uid (now io))) (participants (joined g uid (now io)))
          else [])"
      "r = Inr (JoinReply gid (joined g uid (now io)) SuccessfullyJoined)"
proof -
  have fs: "fst (joinGroupBuy st io gid uid) = st'" "snd (joinGroupBuy st io gid uid) = r"
    using assms by simp_all
  show ?thesis
  proof (cases "findById (groupBuys st) gid")
    case None
    from join_missing[OF None, where io = io and uid = uid] assms have "st' = st" "r = Inl GroupBuyNotFound"
      by simp_all
    with None missing show ?thesis by blast
  next
    case (Some g)
    show ?thesis
    proof (cases "status g = Active")
      case False
      from join_inactive[OF Some False, where io = io and uid = uid] assms
      have "st' = st" "r = Inl (InvalidState (status g))" by simp_all
      with Some False inactive show ?thesis by blast
    next
      case act: True
      show ?thesis
      proof (cases "expiryDate g < now io")
        case True
        show ?thesis
        proof (cases "saveOk io")
          case True
          from join_stale[OF Some act \<open>expiryDate g < now io\<close>, where uid = uid] assms True
          have "st' = st\<lparr>groupBuys := (groupBuys st)[gid := g\<lparr>status := Expired\<rparr>]\<rparr>"
            "r = Inl GroupBuyExpired" by simp_all
          with Some act \<open>expiryDate g < now io\<close> True stale show ?thesis by blast
        next
          case False
          from join_stale[OF Some act \<open>expiryDate g < now io\<close>, where uid = uid] assms False
          have "st' = st" "r = Inl StoreUnavailable" by simp_all
          with Some act \<open>expiryDate g < now io\<close> False stale_unsaved show ?thesis by blast
        qed
      next
        case fresh: False
        show ?thesis
        proof (cases "isParticipant g uid")
          case True
          from join_already[OF Some act fresh True] assms
          have "st' = st" "r = Inr (JoinReply gid g AlreadyParticipating)" by simp_all
          with Some act fresh True already show ?thesis by blast
        next
          case new: False
          show ?thesis
          proof (cases "saveOk io")
            case False
            from join_unsaved[OF Some act fresh new False] fs
            have "groupBuys st' = groupBuys st" "users st' = users st" "r = Inl StoreUnavailable"
              by simp_all
            with Some act fresh new False unsaved show ?thesis by blast
          next
            case True
            from join_added[OF Some act fresh new True] fs
            have "groupBuys st' = (groupBuys st)[gid := joined g uid (now io)]"
              "notifications st' = notifications st @
                 (if thresholdReached (addParticipant g uid (now io))
                  then map (notificationFor (joined g uid (now io))) (participants (joined g uid (now io)))
                  else [])"
              "r = Inr (JoinReply gid (joined g uid (now io)) SuccessfullyJoined)"
              by simp_all
            with Some act fresh new True added show ?thesis by blast
          qed
        qed
      qed
    qed
  qed
qed


subsection \<open>The effect of a creation, by cases\<close>

lemma findActive_Some:
  assumes "findActive gbs pid t = Some gid"
  shows "gid < length gbs" "productId (gbs ! gid) = pid" "status (gbs ! gid) = Active"
    "t < expiryDate (gbs ! gid)"
proof -
  from assms have "gid \<in> set [0..<length gbs] \<and>
      (productId (gbs ! gid) = pid \<and> status (gbs ! gid) = Active \<and> t < expiryDate (gbs ! gid))"
    unfolding findActive_def find_Some_iff by (metis nth_mem)
  then show "gid < length gbs" "productId (gbs ! gid) = pid" "status (gbs ! gid) = Active"
    "t < expiryDate (gbs ! gid)" by simp_all
qed

lemma create_delegates:
  "products st pid = Some p \<Longrightarrow> enabled p \<Longrightarrow> findActive (groupBuys st) pid (now io) = Some gid \<Longrightarrow>
   createGroupBuy st io pid uid = joinGroupBuy st io gid uid"
  by (simp add: createGroupBuy_def)

lemma create_new:
  assumes "products st pid = Some p" "enabled p" "findActive (groupBuys st) pid (now io) = None"
  shows "groupBuys (fst (createGroupBuy st io pid uid)) =
           (if 2 \<le> gb_threshold p \<and> saveOk io
            then groupBuys st @ [newGroupBuy pid p uid (now io)] else groupBuys st)"
    and "notifications (fst (createGroupBuy st io pid uid)) = notifications st"
    and "products (fst (createGroupBuy st io pid uid)) =
           (products st)(pid \<mapsto> p\<lparr>currentParticipants := 1\<rparr>)"
    and "users (fst (createGroupBuy st io pid uid)) =
           (if 2 \<le> gb_threshold p \<and> saveOk io
            then (case users st uid of
                    None \<Rightarrow> users st
                  | Some u \<Rightarrow> (users st)(uid \<mapsto> u\<lparr>groupBuyingParticipation :=
                      groupBuyingParticipation u @
                      [\<lparr>groupId = length (groupBuys st), p_productId = pid, p_productName = name p,
                        p_joinedAt = now io, p_status = Active,
                        potentialCarbonSaving = potentialSaving (p\<lparr>currentParticipants := 1\<rparr>)\<rparr>]\<rparr>))
            else users st)"
    and "snd (createGroupBuy st io pid uid) =
           (if gb_threshold p < 2 then Inl ValidationError
            else if \<not> saveOk io then Inl StoreUnavailable
            else Inr (Saved (length (groupBuys st)) (newGroupBuy pid p uid (now io))))"
  using assms
  by (simp_all add: createGroupBuy_def Let_def pushParticipation_def newGroupBuy_def
      split: option.splits)

lemma create_fails:
  "products st pid = None \<Longrightarrow> createGroupBuy st io pid uid = (st, Inl ProductNotFound)"
  "products st pid = Some p \<Longrightarrow> \<not> enabled p \<Longrightarrow>
   createGroupBuy st io pid uid = (st, Inl FeatureDisabled)"
  by (simp_all add: createGroupBuy_def)

subsection \<open>The effect of a sweep\<close>

lemma expireOne_simps [simp]:
  "groupBuys (expireOne gid st) = (groupBuys st)[gid := (groupBuys st ! gid)\<lparr>status := Expired\<rparr>]"
  "notifications (expireOne gid st) = notifications st"
  by (simp_all add: expireOne_def Let_def)

lemma fold_expireOne_length [simp]:
  "length (groupBuys (fold expireOne ids st)) = length (groupBuys st)"
  by (induction ids arbitrary: st) simp_all

lemma fold_expireOne_notifications [simp]:
  "notifications (fold expireOne ids st) = notifications st"
  by (induction ids arbitrary: st) simp_all



subsection \<open>Every stored group buy is well formed\<close>












subsection \<open>A completed group buy is never written again\<close>






subsection \<open>The counter, the log and the sink\<close>

lemma joined_simps [simp]:
  "productId (joined g uid t) = productId g"
  "productName (joined g uid t) = productName g"
  "threshold (joined g uid t) = threshold g"
  "length (participants (joined g uid t)) = Suc (length (participants g))"
  by (simp_all add: joined_def markCompleted_def addParticipant_def)

lemma potentialSaving_counter:
  "potentialSaving (p\<lparr>currentParticipants := k\<rparr>) = potentialSaving p"
  by (simp add: potentialSaving_def footprintOrDefault_def)

lemma join_counter:
  assumes "joinGroupBuy st io gid uid = (st', Inr (JoinReply gid2 g' SuccessfullyJoined))"
    and "products st (productId g') \<noteq> None"
  shows "gid2 = gid \<and> findById (groupBuys st') gid = Some g' \<and>
    map_option currentParticipants (products st' (productId g')) = Some (length (participants g'))"
proof -
  have fs: "fst (joinGroupBuy st io gid uid) = st'" using assms(1) by simp
  from assms(1) show ?thesis
  proof (cases rule: joinGroupBuy_cases)
    case (added g)
    from join_added(4)[OF added(1-5)] fs
    have "products st' = (case products st (productId g) of
            None \<Rightarrow> products st
          | Some p \<Rightarrow> (products st)(productId g \<mapsto>
                       p\<lparr>currentParticipants := Suc (length (participants g))\<rparr>))" by simp
    with added assms(2) show ?thesis by (auto simp: findById_Some)
  qed simp_all
qed

lemma join_never_Saved: "joinGroupBuy st io gid uid \<noteq> (st', Inr (Saved i g))"
proof
  assume "joinGroupBuy st io gid uid = (st', Inr (Saved i g))"
  then show False by (cases rule: joinGroupBuy_cases) simp_all
qed

lemma create_counter:
  assumes "createGroupBuy st io pid uid = (st', Inr (Saved gid g))"
  shows "findById (groupBuys st') gid = Some g \<and> productId g = pid \<and> status g = Active \<and>
    length (participants g) = 1 \<and>
    map_option currentParticipants (products st' pid) = Some (length (participants g))"
proof -
  have fs: "fst (createGroupBuy st io pid uid) = st'"
    "snd (createGroupBuy st io pid uid) = Inr (Saved gid g)" using assms by simp_all
  show ?thesis
  proof (cases "products st pid")
    case None
    with assms show ?thesis by (simp add: create_fails)
  next
    case (Some p)
    show ?thesis
    proof (cases "enabled p")
      case False
      with Some assms show ?thesis by (simp add: create_fails)
    next
      case True
      show ?thesis
      proof (cases "findActive (groupBuys st) pid (now io)")
        case None
        from create_new[OF Some True None, of uid] fs show ?thesis
          by (auto simp: findById_Some newGroupBuy_def split: if_splits)
      next
        case (Some gid')
        with \<open>products st pid = Some p\<close> True assms join_never_Saved show ?thesis
          by (simp add: create_delegates)
      qed
    qed
  qed
qed

lemma create_join_counter:
  assumes "createGroupBuy st io pid uid = (st', Inr (JoinReply gid g' SuccessfullyJoined))"
  shows "findById (groupBuys st') gid = Some g' \<and>
    map_option currentParticipants (products st' (productId g')) = Some (length (participants g'))"
proof -
  have fs: "snd (createGroupBuy st io pid uid) = Inr (JoinReply gid g' SuccessfullyJoined)"
    using assms by simp
  show ?thesis
  proof (cases "products st pid")
    case None
    with assms show ?thesis by (simp add: create_fails)
  next
    case (Some p)
    show ?thesis
    proof (cases "enabled p")
      case False
      with Some assms show ?thesis by (simp add: create_fails)
    next
      case True
      show ?thesis
      proof (cases "findActive (groupBuys st) pid (now io)")
        case None
        from create_new(5)[OF Some True None, of uid] fs show ?thesis
          by (auto split: if_splits)
      next
        case (Some gid')
        with \<open>products st pid = Some p\<close> True assms
        have j: "joinGroupBuy st io gid' uid = (st', Inr (JoinReply gid g' SuccessfullyJoined))"
          by (simp add: create_delegates)
        from j have "productId g' = productId (groupBuys st ! gid')"
          by (cases rule: joinGroupBuy_cases) (auto simp: findById_Some)
        with findActive_Some(2)[OF Some] \<open>products st pid = Some p\<close>
        have "products st (productId g') \<noteq> None" by simp
        from join_counter[OF j this] show ?thesis by simp
      qed
    qed
  qed
qed

lemma expireOne_zero:
  "products (expireOne i st) (productId (groupBuys st ! i)) = Some p \<Longrightarrow> currentParticipants p = 0"
  by (auto simp: expireOne_def Let_def split: option.splits)

lemma expireOne_zero_kept:
  assumes "\<And>p. products st pid = Some p \<Longrightarrow> currentParticipants p = 0"
    and "products (expireOne j st) pid = Some p"
  shows "currentParticipants p = 0"
  using assms by (auto simp: expireOne_def Let_def split: option.splits if_splits)

lemma fold_expireOne_zero_kept:
  assumes "\<And>p. products st pid = Some p \<Longrightarrow> currentParticipants p = 0"
    and "products (fold expireOne ids st) pid = Some p"
  shows "currentParticipants p = 0"
  using assms
proof (induction ids arbitrary: st p)
  case Nil
  then show ?case by simp
next
  case (Cons j ids)
  show ?case
  proof (rule Cons.IH[of "expireOne j st"])
    show "currentParticipants q = 0" if "products (expireOne j st) pid = Some q" for q
      using Cons.prems(1) that by (rule expireOne_zero_kept)
    show "products (fold expireOne ids (expireOne j st)) pid = Some p"
      using Cons.prems(2) by simp
  qed
qed

lemma expireOne_productId:
  "productId (groupBuys (expireOne j st) ! i) = productId (groupBuys st ! i)"
  by (cases "j < length (groupBuys st)"; cases "i = j") (simp_all add: list_update_beyond)

lemma fold_expireOne_zero:
  assumes "i \<in> set ids" and "products (fold expireOne ids st) (productId (groupBuys st ! i)) = Some p"
  shows "currentParticipants p = 0"
  using assms
proof (induction ids arbitrary: st)
  case Nil
  then show ?case by simp
next
  case (Cons j ids)
  show ?case
  proof (cases "i = j")
    case True
    show ?thesis
    proof (rule fold_expireOne_zero_kept[of "expireOne j st" "productId (groupBuys st ! i)" ids])
      show "currentParticipants q = 0"
        if "products (expireOne j st) (productId (groupBuys st ! i)) = Some q" for q
        using that True by (simp add: expireOne_zero)
      show "products (fold expireOne ids (expireOne j st)) (productId (groupBuys st ! i)) = Some p"
        using Cons.prems(2) by simp
    qed
  next
    case False
    with Cons.prems(1) have "i \<in> set ids" by simp
    moreover have "products (fold expireOne ids (expireOne j st))
        (productId (groupBuys (expireOne j st) ! i)) = Some p"
      unfolding expireOne_productId using Cons.prems(2) by simp
    ultimately show ?thesis by (rule Cons.IH)
  qed
qed









section \<open>Evaluating the scenario\<close>

lemmas scenario_eval =
  run_def shop_def atTime_def bottle_def createGroupBuy_def joinGroupBuy_def findById_def
  findActive_def isParticipant_def pushParticipation_def notificationFor_def msPerDay_def
  addParticipant_def thresholdReached_def markCompleted_def newGroupBuy_def Let_def

lemma potentialSaving_bottle: "potentialSaving (bottle n\<lparr>currentParticipants := k\<rparr>) = 3 / 2"
  by (simp add: potentialSaving_def footprintOrDefault_def bottle_def fl_eval)

lemma crowd_groupBuys:
  "groupBuys crowd =
     [\<lparr>productId = 0, productName = ''Bottle'', initiatorId = 1, threshold = 10,
       discountPercent = 10, carbonSavingPercent = 15, expiryDate = 604800000,
       participants = [\<lparr>userId = 1, joinedAt = 0\<rparr>, \<lparr>userId = 2, joinedAt = 1\<rparr>,
         \<lparr>userId = 3, joinedAt = 2\<rparr>, \<lparr>userId = 4, joinedAt = 3\<rparr>, \<lparr>userId = 5, joinedAt = 4\<rparr>],
       status = Active, completedAt = None, createdAt = 0\<rparr>]"
  by (simp add: crowd_def scenario_eval)

lemma crowd_products: "products crowd 0 = Some (bottle 10\<lparr>currentParticipants := 5\<rparr>)"
  by (simp add: crowd_def scenario_eval)

lemma shop1_eq:
  "shop1 = \<lparr>products = [0 \<mapsto> bottle 3\<lparr>currentParticipants := 1\<rparr>],
            groupBuys = [pending [\<lparr>userId = 1, joinedAt = 0\<rparr>]],
            users = [1 \<mapsto> \<lparr>groupBuyingParticipation = [entry 0 Active]\<rparr>,
                     2 \<mapsto> \<lparr>groupBuyingParticipation = []\<rparr>, 3 \<mapsto> \<lparr>groupBuyingParticipation = []\<rparr>],
            notifications = []\<rparr>"
  by (simp add: shop1_def shop_def atTime_def createGroupBuy_def findActive_def
      pushParticipation_def newGroupBuy_def msPerDay_def Let_def potentialSaving_bottle
      pending_def entry_def fun_upd_twist)
     (simp add: bottle_def numeral_2_eq_2 numeral_3_eq_3)


lemma shop2_eq:
  "shop2 = \<lparr>products = [0 \<mapsto> bottle 3\<lparr>currentParticipants := 2\<rparr>],
            groupBuys = [pending [\<lparr>userId = 1, joinedAt = 0\<rparr>, \<lparr>userId = 2, joinedAt = 1\<rparr>]],
            users = [1 \<mapsto> \<lparr>groupBuyingParticipation = [entry 0 Active]\<rparr>,
                     2 \<mapsto> \<lparr>groupBuyingParticipation = [entry 1 Active]\<rparr>,
                     3 \<mapsto> \<lparr>groupBuyingParticipation = []\<rparr>],
            notifications = []\<rparr>"
  by (simp add: shop2_def shop1_eq atTime_def joinGroupBuy_def findById_def isParticipant_def
      pushParticipation_def addParticipant_def thresholdReached_def Let_def
      potentialSaving_bottle pending_def entry_def fun_upd_twist)
     (simp add: bottle_def numeral_2_eq_2 numeral_3_eq_3)

lemma shop3_eq:
  "shop3 = \<lparr>products = [0 \<mapsto> bottle 3\<lparr>currentParticipants := 3\<rparr>],
            groupBuys = [done3],
            users = [1 \<mapsto> \<lparr>groupBuyingParticipation = [entry 0 Active]\<rparr>,
                     2 \<mapsto> \<lparr>groupBuyingParticipation = [entry 1 Active]\<rparr>,
                     3 \<mapsto> \<lparr>groupBuyingParticipation = [entry 2 Completed]\<rparr>],
            notifications = [success 1, success 2, success 3]\<rparr>"
  by (simp add: shop3_def shop2_eq atTime_def joinGroupBuy_def findById_def isParticipant_def
      pushParticipation_def addParticipant_def thresholdReached_def markCompleted_def Let_def
      notificationFor_def potentialSaving_bottle pending_def entry_def done3_def success_def)
     (simp add: bottle_def numeral_2_eq_2 numeral_3_eq_3)

lemma reachable_shops: "reachable shop1" "reachable shop2" "reachable shop3"
proof -
  have "reachable (shop 3)" by (rule reachable.initial) (simp add: shop_def)
  then show "reachable shop1" unfolding shop1_def by (rule reachable.step)
  then show "reachable shop2" unfolding shop2_def by (rule reachable.step)
  then show "reachable shop3" unfolding shop3_def by (rule reachable.step)
qed

lemma shop1_create:
  "createGroupBuy (shop 3) (atTime 0) 0 1 = (shop1, Inr (Saved 0 (pending [\<lparr>userId = 1, joinedAt = 0\<rparr>])))"
  unfolding shop1_eq
  by (simp add: shop_def atTime_def createGroupBuy_def findActive_def
      pushParticipation_def newGroupBuy_def msPerDay_def Let_def potentialSaving_bottle
      pending_def entry_def fun_upd_twist)
     (simp add: bottle_def)

lemma shop2_join:
  "joinGroupBuy shop1 (atTime 1) 0 2 =
     (shop2, Inr (JoinReply 0 (pending [\<lparr>userId = 1, joinedAt = 0\<rparr>, \<lparr>userId = 2, joinedAt = 1\<rparr>])
        SuccessfullyJoined))"
  unfolding shop2_eq
  by (simp add: shop1_eq atTime_def joinGroupBuy_def findById_def isParticipant_def
      pushParticipation_def addParticipant_def thresholdReached_def Let_def
      potentialSaving_bottle pending_def entry_def fun_upd_twist)
     (simp add: bottle_def numeral_2_eq_2 numeral_3_eq_3)

lemma shop3_join:
  "joinGroupBuy shop2 (atTime 2) 0 3 = (shop3, Inr (JoinReply 0 done3 SuccessfullyJoined))"
  unfolding shop3_eq
  by (simp add: shop2_eq atTime_def joinGroupBuy_def findById_def isParticipant_def
      pushParticipation_def addParticipant_def thresholdReached_def markCompleted_def Let_def
      notificationFor_def potentialSaving_bottle pending_def entry_def done3_def success_def)
     (simp add: bottle_def numeral_2_eq_2 numeral_3_eq_3)


lemma shop1_expiredIds: "expiredIds (groupBuys shop1) late = [0]"
  by (simp add: expiredIds_def shop1_eq pending_def late_def)

lemma shop1_sweep:
  "snd (checkAndUpdateExpiredGroupBuys shop1 late) = 1"
  "groupBuys (fst (checkAndUpdateExpiredGroupBuys shop1 late)) =
     [(pending [\<lparr>userId = 1, joinedAt = 0\<rparr>])\<lparr>status := Expired\<rparr>]"
  "products (fst (checkAndUpdateExpiredGroupBuys shop1 late)) 0 =
     Some (bottle 3\<lparr>currentParticipants := 0\<rparr>)"
  "users (fst (checkAndUpdateExpiredGroupBuys shop1 late)) 1 =
     Some \<lparr>groupBuyingParticipation = [entry 0 Expired]\<rparr>"
  by (simp_all add: checkAndUpdateExpiredGroupBuys_def shop1_expiredIds expireOne_def Let_def)
     (simp_all add: shop1_eq pending_def entry_def)





lemma impactOf_2_10_15:
  "impactOf gid 2 10 15 =
     \<lparr>groupBuyId = gid, participantsCount = 2, shippingEmissionsSaved = 2,
      packagingSaved = 3602879701896397 / 2 ^ 53,
      productCarbonSavings = 3, totalCarbonSaved = 5,
      totalMaterialsSaved = 3602879701896397 / 2 ^ 53\<rparr>"
  by (simp add: impactOf_def fl_eval)


section \<open>The product's participation counter\<close>

text \<open>
  C1, as the code has it. A creation that succeeds leaves the product's counter at 1, the
  number of participants of the group buy it stored. A join that adds a participant (made
  directly, for a product that exists, or through a creation that found an active group
  buy) leaves the counter at the
  number of participants of the group buy it wrote, whether that group buy stays active or
  has just become completed. After a sweep the counter of the product of every group buy
  that was swept is zero.
\<close>

theorem counter_after_operation:
  "(createGroupBuy st io pid uid = (st1, Inr (Saved gid g)) \<longrightarrow>
      findById (groupBuys st1) gid = Some g \<and> productId g = pid \<and> status g = Active \<and>
      length (participants g) = 1 \<and>
      map_option currentParticipants (products st1 pid) = Some (length (participants g))) \<and>
   ((joinGroupBuy st io gid' uid' = (st2, Inr (JoinReply gid' g' SuccessfullyJoined)) \<and>
     products st (productId g') \<noteq> None \<or>
     createGroupBuy st io pid' uid' = (st2, Inr (JoinReply gid' g' SuccessfullyJoined))) \<longrightarrow>
      findById (groupBuys st2) gid' = Some g' \<and>
      map_option currentParticipants (products st2 (productId g')) =
        Some (length (participants g'))) \<and>
   (checkAndUpdateExpiredGroupBuys st t = (st3, n) \<longrightarrow>
      (\<forall>i \<in> set (expiredIds (groupBuys st) t). \<forall>p.
          products st3 (productId (groupBuys st ! i)) = Some p \<longrightarrow> currentParticipants p = 0))"
proof (intro conjI impI ballI allI)
  assume "createGroupBuy st io pid uid = (st1, Inr (Saved gid g))"
  from create_counter[OF this]
  show "findById (groupBuys st1) gid = Some g" "productId g = pid" "status g = Active"
    "length (participants g) = 1"
    "map_option currentParticipants (products st1 pid) = Some (length (participants g))"
    by blast+
next
  assume a: "joinGroupBuy st io gid' uid' = (st2, Inr (JoinReply gid' g' SuccessfullyJoined)) \<and>
     products st (productId g') \<noteq> None \<or>
     createGroupBuy st io pid' uid' = (st2, Inr (JoinReply gid' g' SuccessfullyJoined))"
  then have "findById (groupBuys st2) gid' = Some g' \<and>
      map_option currentParticipants (products st2 (productId g')) =
        Some (length (participants g'))"
    using join_counter create_join_counter by blast
  then show "findById (groupBuys st2) gid' = Some g'"
    "map_option currentParticipants (products st2 (productId g')) =
        Some (length (participants g'))" by simp_all
next
  fix i p
  assume "checkAndUpdateExpiredGroupBuys st t = (st3, n)"
    and "i \<in> set (expiredIds (groupBuys st) t)"
    and "products st3 (productId (groupBuys st ! i)) = Some p"
  then show "currentParticipants p = 0"
    using fold_expireOne_zero[of i "expiredIds (groupBuys st) t" st p]
    by (auto simp: checkAndUpdateExpiredGroupBuys_def Let_def)
qed

text \<open>The three parts of C1 on the scenario: the creation, the join that completes the group
  buy, and a sweep after the expiry date.\<close>

theorem counter_after_operation_witness:
  "createGroupBuy (shop 3) (atTime 0) 0 1 =
     (shop1, Inr (Saved 0 (pending [\<lparr>userId = 1, joinedAt = 0\<rparr>]))) \<and>
   map_option currentParticipants (products shop1 0) = Some 1 \<and>
   joinGroupBuy shop2 (atTime 2) 0 3 = (shop3, Inr (JoinReply 0 done3 SuccessfullyJoined)) \<and>
   products shop2 (productId done3) \<noteq> None \<and> status done3 = Completed \<and>
   length (participants done3) = 3 \<and>
   map_option currentParticipants (products shop3 0) = Some 3 \<and>
   0 \<in> set (expiredIds (groupBuys shop1) late) \<and>
   map_option currentParticipants
     (products (fst (checkAndUpdateExpiredGroupBuys shop1 late)) (productId (groupBuys shop1 ! 0))) =
     Some 0"
proof -
  have sw: "checkAndUpdateExpiredGroupBuys shop1 late =
      (fst (checkAndUpdateExpiredGroupBuys shop1 late), snd (checkAndUpdateExpiredGroupBuys shop1 late))"
    by simp
  have pr: "products shop2 (productId done3) \<noteq> None"
    by (simp add: shop2_eq done3_def pending_def)
  have ex: "0 \<in> set (expiredIds (groupBuys shop1) late)" by (simp add: shop1_expiredIds)
  have pid: "productId (groupBuys shop1 ! 0) = 0" by (simp add: shop1_eq pending_def)
  from counter_after_operation[where st = "shop 3" and io = "atTime 0" and pid = 0 and uid = 1
      and ?st1.0 = shop1 and gid = 0 and g = "pending [\<lparr>userId = 1, joinedAt = 0\<rparr>]",
      THEN conjunct1, rule_format, OF shop1_create]
  have a: "map_option currentParticipants (products shop1 0) = Some 1"
    by (simp add: pending_def)
  from counter_after_operation[where st = shop2 and io = "atTime 2" and gid' = 0 and uid' = 3
      and ?st2.0 = shop3 and g' = done3,
      THEN conjunct2, THEN conjunct1, rule_format, OF disjI1, OF conjI, OF shop3_join pr]
  have b: "map_option currentParticipants (products shop3 0) = Some 3"
    by (simp add: done3_def pending_def numeral_3_eq_3)
  from counter_after_operation[where st = shop1 and t = late,
      THEN conjunct2, THEN conjunct2, rule_format, OF sw ex]
    shop1_sweep(3) pid
  have c: "map_option currentParticipants
     (products (fst (checkAndUpdateExpiredGroupBuys shop1 late)) (productId (groupBuys shop1 ! 0))) =
     Some 0"
    by simp
  from a b c shop1_create shop3_join pr ex show ?thesis
    by (simp add: done3_def pending_def)
qed

text \<open>C1 as the specification states it fails after the completing join: no group buy of the
  product is active, and the counter is 3.\<close>

theorem counter_after_completion:
  "reachable shop3 \<and> activeFor shop3 0 = [] \<and>
   map_option currentParticipants (products shop3 0) = Some 3 \<and>
   \<not> spec_counterInvariant shop3 0"
  using reachable_shops(3)
  by (simp add: spec_counterInvariant_def activeFor_def shop3_eq done3_def pending_def)


section \<open>The participation record of a join\<close>

text \<open>
  C3, as the code has it. A successful join of a new participant, for a registered user and
  an existing product, appends one entry to the user's log; its status is the status of the
  group buy after the join, and its potential saving is the product's footprint (10 when
  missing or zero) times the product's saving percentage over 100. The number of
  participants does not enter the figure.
\<close>

theorem participation_record:
  assumes "joinGroupBuy st io gid uid = (st', Inr (JoinReply gid g' SuccessfullyJoined))"
    and "products st (productId g') = Some p" and "users st uid = Some u"
  shows "findById (groupBuys st') gid = Some g' \<and>
    users st' uid =
      Some (u\<lparr>groupBuyingParticipation := groupBuyingParticipation u @
        [\<lparr>groupId = gid, p_productId = productId g', p_productName = productName g',
          p_joinedAt = now io, p_status = status g',
          potentialCarbonSaving =
            jdiv (jmul (footprintOrDefault p) (gb_carbonSavingPercent p)) 100\<rparr>]\<rparr>)"
proof -
  have fs: "fst (joinGroupBuy st io gid uid) = st'" using assms(1) by simp
  from assms(1) show ?thesis
  proof (cases rule: joinGroupBuy_cases)
    case (added g)
    from join_added(5)[OF added(1-5)] fs added(8) assms(2,3)
    have "users st' uid =
      Some (u\<lparr>groupBuyingParticipation := groupBuyingParticipation u @
        [\<lparr>groupId = gid, p_productId = productId g', p_productName = productName g',
          p_joinedAt = now io, p_status = status g',
          potentialCarbonSaving = potentialSaving p\<rparr>]\<rparr>)"
      by (auto simp: potentialSaving_counter)
    with added show ?thesis by (auto simp: findById_Some potentialSaving_def)
  qed simp_all
qed

theorem participation_record_witness:
  "joinGroupBuy shop2 (atTime 2) 0 3 = (shop3, Inr (JoinReply 0 done3 SuccessfullyJoined)) \<and>
   products shop2 (productId done3) = Some (bottle 3\<lparr>currentParticipants := 2\<rparr>) \<and>
   users shop2 3 = Some \<lparr>groupBuyingParticipation = []\<rparr> \<and>
   status done3 = Completed \<and>
   users shop3 3 =
     Some \<lparr>groupBuyingParticipation =
       [\<lparr>groupId = 0, p_productId = 0, p_productName = ''Bottle'', p_joinedAt = 2,
         p_status = Completed, potentialCarbonSaving = 3 / 2\<rparr>]\<rparr>"
proof -
  have pr: "products shop2 (productId done3) = Some (bottle 3\<lparr>currentParticipants := 2\<rparr>)"
    by (simp add: shop2_eq done3_def pending_def)
  have us: "users shop2 3 = Some \<lparr>groupBuyingParticipation = []\<rparr>"
    by (simp add: shop2_eq)
  have sv: "jdiv (jmul (footprintOrDefault (bottle 3\<lparr>currentParticipants := 2\<rparr>))
      (gb_carbonSavingPercent (bottle 3\<lparr>currentParticipants := 2\<rparr>))) 100 = 3 / 2"
    using potentialSaving_bottle[where n = 3 and k = 2] by (simp add: potentialSaving_def)
  from participation_record[OF shop3_join pr us] sv shop3_join pr us show ?thesis
    by (simp add: done3_def pending_def atTime_def)
qed

text \<open>C3 as the specification states it fails: the second and the third participant both get
  1.5, while the estimate for two participants has product savings 3 and total 5.\<close>

theorem saving_ignores_participant_count:
  "joinGroupBuy shop1 (atTime 1) 0 2 =
     (shop2, Inr (JoinReply 0 (pending [\<lparr>userId = 1, joinedAt = 0\<rparr>, \<lparr>userId = 2, joinedAt = 1\<rparr>])
        SuccessfullyJoined)) \<and>
   map potentialCarbonSaving (groupBuyingParticipation (the (users shop2 2))) = [3 / 2] \<and>
   map potentialCarbonSaving (groupBuyingParticipation (the (users shop3 3))) = [3 / 2] \<and>
   calculateGroupBuyImpact shop2 0 =
     Inr \<lparr>groupBuyId = 0, participantsCount = 2, shippingEmissionsSaved = 2,
          packagingSaved = 3602879701896397 / 2 ^ 53,
          productCarbonSavings = 3, totalCarbonSaved = 5,
          totalMaterialsSaved = 3602879701896397 / 2 ^ 53\<rparr>"
proof -
  have "calculateGroupBuyImpact shop2 0 = Inr (impactOf 0 2 10 15)"
    by (simp add: calculateGroupBuyImpact_def shop2_eq findById_def pending_def
        footprintOrDefault_def bottle_def numeral_2_eq_2)
  then show ?thesis
    by (simp add: shop2_join impactOf_2_10_15) (simp add: shop2_eq shop3_eq entry_def)
qed


section \<open>Joining a group buy past its expiry date\<close>

text \<open>
  C4. A join after the expiry date marks the group buy expired, saves it and fails with
  \<open>GroupBuyExpired\<close>, but it does not touch the participants' log entries nor the product's
  counter: in the scenario user 1 keeps an active entry and the counter stays at 1. The
  sweeper then skips the group buy, so the two views stay as they are, whereas a sweep of
  the same store in place of the join sets the entry to expired and the counter to 0.
\<close>

theorem stale_join_skips_reconciliation:
  "now (atTime late) > expiryDate (pending [\<lparr>userId = 1, joinedAt = 0\<rparr>]) \<and>
   joinGroupBuy shop1 (atTime late) 0 2 =
     (shop1\<lparr>groupBuys := [(pending [\<lparr>userId = 1, joinedAt = 0\<rparr>])\<lparr>status := Expired\<rparr>]\<rparr>,
      Inl GroupBuyExpired) \<and>
   users (fst (joinGroupBuy shop1 (atTime late) 0 2)) 1 =
     Some \<lparr>groupBuyingParticipation = [entry 0 Active]\<rparr> \<and>
   map_option currentParticipants (products (fst (joinGroupBuy shop1 (atTime late) 0 2)) 0) = Some 1 \<and>
   checkAndUpdateExpiredGroupBuys (fst (joinGroupBuy shop1 (atTime late) 0 2)) (late + 1) =
     (fst (joinGroupBuy shop1 (atTime late) 0 2), 0) \<and>
   snd (checkAndUpdateExpiredGroupBuys shop1 late) = 1 \<and>
   users (fst (checkAndUpdateExpiredGroupBuys shop1 late)) 1 =
     Some \<lparr>groupBuyingParticipation = [entry 0 Expired]\<rparr> \<and>
   map_option currentParticipants (products (fst (checkAndUpdateExpiredGroupBuys shop1 late)) 0) = Some 0"
proof -
  have j: "joinGroupBuy shop1 (atTime late) 0 2 =
     (shop1\<lparr>groupBuys := [(pending [\<lparr>userId = 1, joinedAt = 0\<rparr>])\<lparr>status := Expired\<rparr>]\<rparr>,
      Inl GroupBuyExpired)"
    by (simp add: shop1_eq atTime_def late_def joinGroupBuy_def findById_def pending_def)
  have s: "checkAndUpdateExpiredGroupBuys
      (shop1\<lparr>groupBuys := [(pending [\<lparr>userId = 1, joinedAt = 0\<rparr>])\<lparr>status := Expired\<rparr>]\<rparr>) (late + 1) =
      (shop1\<lparr>groupBuys := [(pending [\<lparr>userId = 1, joinedAt = 0\<rparr>])\<lparr>status := Expired\<rparr>]\<rparr>, 0)"
    by (simp add: checkAndUpdateExpiredGroupBuys_def expiredIds_def pending_def)
  have c1: "now (atTime late) > expiryDate (pending [\<lparr>userId = 1, joinedAt = 0\<rparr>])"
    by (simp add: atTime_def late_def pending_def)
  have c3: "users (fst (joinGroupBuy shop1 (atTime late) 0 2)) 1 =
     Some \<lparr>groupBuyingParticipation = [entry 0 Active]\<rparr>"
    by (simp add: j) (simp add: shop1_eq)
  have c4: "map_option currentParticipants
      (products (fst (joinGroupBuy shop1 (atTime late) 0 2)) 0) = Some 1"
    by (simp add: j) (simp add: shop1_eq)
  have c5: "checkAndUpdateExpiredGroupBuys (fst (joinGroupBuy shop1 (atTime late) 0 2)) (late + 1) =
     (fst (joinGroupBuy shop1 (atTime late) 0 2), 0)"
    unfolding j fst_conv by (rule s)
  have c8: "map_option currentParticipants
      (products (fst (checkAndUpdateExpiredGroupBuys shop1 late)) 0) = Some 0"
    by (simp add: shop1_sweep(3))
  from c1 j c3 c4 c5 shop1_sweep(1) shop1_sweep(4) c8 show ?thesis by (intro conjI)
qed


section \<open>Threshold exactness\<close>




section \<open>Notifications\<close>




section \<open>Joining twice\<close>

text \<open>
  C7, as the code has it. For an active group buy whose expiry date has not passed, a join
  by a user who is already a participant succeeds, returns the group buy as it is and
  leaves the whole store unchanged.
\<close>

theorem join_idempotent:
  assumes "findById (groupBuys st) gid = Some g" and "status g = Active"
    and "now io \<le> expiryDate g" and "uid \<in> userId ` set (participants g)"
  shows "joinGroupBuy st io gid uid = (st, Inr (JoinReply gid g AlreadyParticipating))"
proof -
  from assms(3) have "\<not> expiryDate g < now io" by simp
  moreover from assms(4) have "isParticipant g uid" by (auto simp: isParticipant_def)
  ultimately show ?thesis using assms(1,2) by (rule join_already[rotated 2])
qed

theorem join_idempotent_witness:
  "findById (groupBuys shop2) 0 = Some (groupBuys shop2 ! 0) \<and>
   status (groupBuys shop2 ! 0) = Active \<and> now (atTime 5) \<le> expiryDate (groupBuys shop2 ! 0) \<and>
   (1::nat) \<in> userId ` set (participants (groupBuys shop2 ! 0)) \<and>
   joinGroupBuy shop2 (atTime 5) 0 1 =
     (shop2, Inr (JoinReply 0 (groupBuys shop2 ! 0) AlreadyParticipating))"
proof -
  have a: "findById (groupBuys shop2) 0 = Some (groupBuys shop2 ! 0)"
    by (simp add: shop2_eq findById_def)
  have b: "status (groupBuys shop2 ! 0) = Active" by (simp add: shop2_eq pending_def)
  have c: "now (atTime 5) \<le> expiryDate (groupBuys shop2 ! 0)"
    by (simp add: shop2_eq pending_def atTime_def)
  have d: "(1::nat) \<in> userId ` set (participants (groupBuys shop2 ! 0))"
    by (simp add: shop2_eq pending_def)
  from join_idempotent[OF a b c d] a b c d show ?thesis by simp
qed

text \<open>C7 as the specification states it fails on a completed group buy: the join of a
  participant is refused with \<open>InvalidState Completed\<close>.\<close>

theorem rejoin_completed_fails:
  "findById (groupBuys shop3) 0 = Some done3 \<and> status done3 = Completed \<and>
   (1::nat) \<in> userId ` set (participants done3) \<and>
   joinGroupBuy shop3 (atTime 3) 0 1 = (shop3, Inl (InvalidState Completed))"
proof -
  have a: "findById (groupBuys shop3) 0 = Some done3" by (simp add: shop3_eq findById_def)
  have b: "status done3 = Completed" by (simp add: done3_def)
  have "joinGroupBuy shop3 (atTime 3) 0 1 = (shop3, Inl (InvalidState (status done3)))"
    using a b by (intro join_inactive) simp_all
  with a b show ?thesis by (simp add: done3_def pending_def)
qed


section \<open>Order of the writes\<close>





section \<open>The carbon impact estimator\<close>

text \<open>
  C9. The estimator is a function of the stored documents alone, and for a group buy with 5
  participants and a saving of 15 percent on a product whose footprint is 10 it returns
  shipping savings 8.0, packaging savings 1.0, product savings 7.5 and the total
  15.5 = 8.0 + 7.5; the packaging savings are reported apart, as the materials saved. The
  values are those of binary64 arithmetic (the literal 0.2 is not exact, yet 5 * 0.2 rounds
  to 1).
\<close>

theorem estimator_example:
  assumes "findById (groupBuys st) gid = Some g"
    and "length (participants g) = 5"
    and "carbonSavingPercent g = 15"
    and "products st (productId g) = Some p"
    and "carbonFootprint p = Some 10"
  shows "calculateGroupBuyImpact st gid =
           Inr \<lparr>groupBuyId = gid, participantsCount = 5, shippingEmissionsSaved = 8,
                packagingSaved = 1, productCarbonSavings = 15 / 2, totalCarbonSaved = 31 / 2,
                totalMaterialsSaved = 1\<rparr>"
  using assms by (simp add: calculateGroupBuyImpact_def footprintOrDefault_def impactOf_10_5_15)

theorem estimator_example_witness:
  "calculateGroupBuyImpact crowd 0 =
     Inr \<lparr>groupBuyId = 0, participantsCount = 5, shippingEmissionsSaved = 8,
          packagingSaved = 1, productCarbonSavings = 15 / 2, totalCarbonSaved = 31 / 2,
          totalMaterialsSaved = 1\<rparr>"
  by (rule estimator_example[where g = "hd (groupBuys crowd)"
        and p = "bottle 10\<lparr>currentParticipants := 5\<rparr>"])
     (simp_all add: crowd_groupBuys crowd_products findById_def bottle_def)

end
